theory Spec2Isabelle
  imports Complex_Main "HOL-Library.List_Lexorder" "HOL-Library.Char_ord"
begin

section \<open>Canonical search results (client, TrackFoodForm and useNutritionApi)\<close>

text \<open>
  JavaScript numbers that carry nutrient amounts and quantities are modelled as exact
  rationals: the arithmetic of the source (\<open>*\<close>, \<open>/\<close>, \<open>> 0\<close>) is kept, the IEEE
  rounding of the double format is outside the model. Identifiers (row ids, nutrient ids)
  are integers. Strings are \<open>char list\<close>.
\<close>

record nutrient =
  nutrientId :: int
  nutrientName :: string
  nutrientNumber :: string
  unitName :: string
  value' :: rat

text \<open>
  The type \<open>FoodSearchResult\<close> of TrackFoodForm. Optional string fields are options; the
  optional boolean flags are booleans (an absent flag is falsy wherever it is read).
\<close>

record FoodSearchResult =
  fdcId :: string
  description :: string
  nutrients :: "nutrient list"
  dataType :: "string option"
  foodCode :: "string option"
  brandName :: "string option"
  foodGroup :: "string option"
  isIndianFood :: bool
  isCustomFood :: bool

subsection \<open>Nutrient lookup and the nutrition calculation\<close>

text \<open>
  \<open>getNutrientValue(nutrients, nutrientId)\<close>: 0 when the list is undefined or not an
  array (\<open>None\<close>), otherwise the value of the first entry found with that id, 0 when
  \<open>find\<close> returns nothing.
\<close>

definition getNutrientValue :: "nutrient list option \<Rightarrow> int \<Rightarrow> rat" where
  "getNutrientValue nutrients_opt nid =
     (case nutrients_opt of
        None \<Rightarrow> 0
      | Some ns \<Rightarrow>
          (case find (\<lambda>n. nutrientId n = nid) ns of
             Some n \<Rightarrow> value' n
           | None \<Rightarrow> 0))"

definition CALORIES_ID :: int where "CALORIES_ID = 1008"
definition PROTEIN_ID :: int where "PROTEIN_ID = 1003"
definition CARBS_ID :: int where "CARBS_ID = 1005"
definition FAT_ID :: int where "FAT_ID = 1004"

record macros =
  m_calories :: rat
  m_protein :: rat
  m_carbs :: rat
  m_fat :: rat

definition calculateNutrition :: "FoodSearchResult \<Rightarrow> rat \<Rightarrow> macros" where
  "calculateNutrition food multiplier =
     \<lparr> m_calories = getNutrientValue (Some (nutrients food)) CALORIES_ID * multiplier,
       m_protein = getNutrientValue (Some (nutrients food)) PROTEIN_ID * multiplier,
       m_carbs = getNutrientValue (Some (nutrients food)) CARBS_ID * multiplier,
       m_fat = getNutrientValue (Some (nutrients food)) FAT_ID * multiplier \<rparr>"

text \<open>The body of \<open>POST /api/food-items\<close> that \<open>handleAddFood\<close> builds.\<close>

record FoodItem =
  fi_userId :: int
  fi_foodName :: string
  fi_quantity :: rat
  fi_unit :: string
  fi_calories :: rat
  fi_protein :: rat
  fi_carbs :: rat
  fi_fat :: rat
  fi_mealType :: string
  fi_date :: string
  fi_fdcId :: string

text \<open>
  \<open>handleAddFood\<close>: with no selected food nothing is submitted (\<open>None\<close>); otherwise
  the multiplier is \<open>quantity / 100\<close> and the item carries the scaled macros. The unit
  is stored and never enters the arithmetic.
\<close>

definition handleAddFood ::
  "int \<Rightarrow> string \<Rightarrow> FoodSearchResult option \<Rightarrow> rat \<Rightarrow> string \<Rightarrow> string \<Rightarrow> FoodItem option" where
  "handleAddFood userId date selectedFood quantity unit mealType =
     (case selectedFood of
        None \<Rightarrow> None
      | Some food \<Rightarrow>
          (let multiplier = quantity / 100;
               r = calculateNutrition food multiplier
           in Some \<lparr> fi_userId = userId,
                     fi_foodName = description food,
                     fi_quantity = quantity,
                     fi_unit = unit,
                     fi_calories = m_calories r,
                     fi_protein = m_protein r,
                     fi_carbs = m_carbs r,
                     fi_fat = m_fat r,
                     fi_mealType = mealType,
                     fi_date = date,
                     fi_fdcId = fdcId food \<rparr>))"

text \<open>
  The lookup as the specification words it: the value of the nutrient entry with the
  matching id, 0 when no entry has that id.
\<close>

definition lookupNutrientValue_spec :: "nutrient list \<Rightarrow> int \<Rightarrow> rat" where
  "lookupNutrientValue_spec ns nid =
     (case filter (\<lambda>n. nutrientId n = nid) ns of [] \<Rightarrow> 0 | n # _ \<Rightarrow> value' n)"

subsection \<open>Micro-nutrient lines of the selected-food panel\<close>

text \<open>\<open>Math.round\<close>: the nearest integer, halves towards \<open>+\<infinity>\<close>.\<close>

definition Math_round :: "rat \<Rightarrow> int" where
  "Math_round x = \<lfloor>x + 1 / 2\<rfloor>"

text \<open>
  What the panel renders below the four macros: a field is \<open>Some\<close> of the number shown,
  \<open>None\<close> when its markup is not rendered. The calcium and iron spans are children of
  the block that the fiber test guards.
\<close>

record micro_display =
  shown_fiber :: "int option"
  shown_calcium :: "int option"
  shown_iron :: "int option"

definition microNutrientDisplay :: "FoodSearchResult \<Rightarrow> rat \<Rightarrow> micro_display" where
  "microNutrientDisplay selectedFood quantity =
     (let ns = Some (nutrients selectedFood) in
      if getNutrientValue ns 1079 > 0 then
        \<lparr> shown_fiber = Some (Math_round (getNutrientValue ns 1079 * (quantity / 100))),
          shown_calcium =
            (if getNutrientValue ns 1087 > 0
             then Some (Math_round (getNutrientValue ns 1087 * (quantity / 100)))
             else None),
          shown_iron =
            (if getNutrientValue ns 1089 > 0
             then Some (Math_round (getNutrientValue ns 1089 * (quantity / 100)))
             else None) \<rparr>
      else \<lparr> shown_fiber = None, shown_calcium = None, shown_iron = None \<rparr>)"

section \<open>Source adapters\<close>

subsection \<open>Numbers inside template literals\<close>

text \<open>
  A template literal \<open>`indian-${food.id}`\<close> renders an integer id in decimal, with a
  leading minus sign when negative.
\<close>

definition digit_char :: "nat \<Rightarrow> char" where
  "digit_char n = ''0123456789'' ! (n mod 10)"

fun nat_to_string :: "nat \<Rightarrow> string" where
  "nat_to_string n =
     (if n < 10 then [digit_char n]
      else nat_to_string (n div 10) @ [digit_char (n mod 10)])"

definition number_to_string :: "int \<Rightarrow> string" where
  "number_to_string i =
     (if i < 0 then CHR ''-'' # nat_to_string (nat (- i)) else nat_to_string (nat i))"

subsection \<open>Curated (Indian) foods\<close>

text \<open>
  The record type \<open>IndianFood\<close> is declared in lib/types, outside the sources at hand; its
  fields are the ones the adapter reads. Every field the adapter guards with \<open>||\<close> may be
  missing (\<open>None\<close>).
\<close>

record IndianFood =
  if_id :: int
  if_foodName :: "string option"
  if_calories :: "rat option"
  if_protein :: "rat option"
  if_carbs :: "rat option"
  if_fat :: "rat option"
  if_fiber :: "rat option"
  if_calcium :: "rat option"
  if_iron :: "rat option"
  if_foodGroup :: "string option"
  if_foodCode :: "string option"

text \<open>\<open>x || 0\<close> on an optional number: a missing value and 0 are both falsy.\<close>

definition or_zero :: "rat option \<Rightarrow> rat" where
  "or_zero x = (case x of None \<Rightarrow> 0 | Some v \<Rightarrow> if v = 0 then 0 else v)"

text \<open>\<open>s || d\<close> on an optional string: a missing value and the empty string are falsy.\<close>

definition or_string :: "string option \<Rightarrow> string \<Rightarrow> string" where
  "or_string s d = (case s of None \<Rightarrow> d | Some v \<Rightarrow> if v = [] then d else v)"

definition convertIndianFoodToSearchResult :: "IndianFood option \<Rightarrow> FoodSearchResult" where
  "convertIndianFoodToSearchResult food_opt =
     (case food_opt of
        None \<Rightarrow>
          \<lparr> fdcId = ''invalid-food'',
            description = ''Invalid food data'',
            nutrients = [],
            dataType = None, foodCode = None, brandName = None, foodGroup = None,
            isIndianFood = True,
            isCustomFood = False \<rparr>
      | Some food \<Rightarrow>
          \<lparr> fdcId = ''indian-'' @ number_to_string (if_id food),
            description = or_string (if_foodName food) ''Unknown Indian Food'',
            nutrients =
              [ \<lparr> nutrientId = 1008, nutrientName = ''Energy'', nutrientNumber = ''208'',
                  unitName = ''kcal'', value' = or_zero (if_calories food) \<rparr>,
                \<lparr> nutrientId = 1003, nutrientName = ''Protein'', nutrientNumber = ''203'',
                  unitName = ''g'', value' = or_zero (if_protein food) \<rparr>,
                \<lparr> nutrientId = 1005, nutrientName = ''Carbohydrates'', nutrientNumber = ''205'',
                  unitName = ''g'', value' = or_zero (if_carbs food) \<rparr>,
                \<lparr> nutrientId = 1004, nutrientName = ''Total lipid (fat)'',
                  nutrientNumber = ''204'', unitName = ''g'', value' = or_zero (if_fat food) \<rparr>,
                \<lparr> nutrientId = 1079, nutrientName = ''Fiber'', nutrientNumber = ''291'',
                  unitName = ''g'', value' = or_zero (if_fiber food) \<rparr>,
                \<lparr> nutrientId = 1087, nutrientName = ''Calcium'', nutrientNumber = ''301'',
                  unitName = ''mg'', value' = or_zero (if_calcium food) \<rparr>,
                \<lparr> nutrientId = 1089, nutrientName = ''Iron'', nutrientNumber = ''303'',
                  unitName = ''mg'', value' = or_zero (if_iron food) \<rparr> ],
            dataType = None,
            foodCode = if_foodCode food,
            brandName = None,
            foodGroup = Some (or_string (if_foodGroup food) ''Indian Foods''),
            isIndianFood = True,
            isCustomFood = False \<rparr>)"

subsection \<open>Custom foods\<close>

text \<open>
  Modelled from the spec: the record type \<open>CustomFood\<close> is declared in lib/types and
  shared/schema, outside the sources at hand. The adapter and the storage layer read
  id, userId, foodName, calories, protein, carbs, fat and foodGroup; the data model of the
  specification adds fiber, calcium and iron per 100 units.
\<close>

record CustomFood =
  cf_id :: int
  cf_userId :: int
  cf_foodName :: string
  cf_calories :: rat
  cf_protein :: rat
  cf_carbs :: rat
  cf_fat :: rat
  cf_fiber :: "rat option"
  cf_calcium :: "rat option"
  cf_iron :: "rat option"
  cf_foodGroup :: "string option"

definition convertCustomFoodToSearchResult :: "CustomFood \<Rightarrow> FoodSearchResult" where
  "convertCustomFoodToSearchResult food =
     \<lparr> fdcId = ''custom-'' @ number_to_string (cf_id food),
       description = cf_foodName food,
       nutrients =
         [ \<lparr> nutrientId = 1008, nutrientName = ''Energy'', nutrientNumber = ''208'',
             unitName = ''kcal'', value' = cf_calories food \<rparr>,
           \<lparr> nutrientId = 1003, nutrientName = ''Protein'', nutrientNumber = ''203'',
             unitName = ''g'', value' = cf_protein food \<rparr>,
           \<lparr> nutrientId = 1005, nutrientName = ''Carbohydrates'', nutrientNumber = ''205'',
             unitName = ''g'', value' = cf_carbs food \<rparr>,
           \<lparr> nutrientId = 1004, nutrientName = ''Total lipid (fat)'',
             nutrientNumber = ''204'', unitName = ''g'', value' = cf_fat food \<rparr> ],
       dataType = None, foodCode = None, brandName = None,
       foodGroup = Some (or_string (cf_foodGroup food) ''Custom Foods''),
       isIndianFood = False,
       isCustomFood = True \<rparr>"

subsection \<open>USDA results\<close>

text \<open>
  Modelled from the spec: the USDA adapter (\<open>searchFoods\<close> of lib/api) is outside the
  sources at hand. The specification says that USDA ids are used as they are; the native
  id of a USDA record is its FDC number, so the canonical id is that number in decimal.
\<close>

definition usda_fdcId :: "nat \<Rightarrow> string" where
  "usda_fdcId n = number_to_string (int n)"

text \<open>The seven canonical nutrient ids (calories, protein, carbs, fat, fiber, calcium, iron).\<close>

definition canonical_nutrient_ids :: "int list" where
  "canonical_nutrient_ids = [1008, 1003, 1005, 1004, 1079, 1087, 1089]"


section \<open>Search unifier (useNutritionApi and the search effect of TrackFoodForm)\<close>

subsection \<open>String helpers\<close>

text \<open>
  \<open>String.prototype.trim\<close> strips white space and line terminators at both ends; the
  code units below 256 that count are listed. \<open>toLowerCase\<close> is given on the ASCII
  letters. \<open>includes\<close> is the search for a contiguous run.
\<close>

definition isWhiteSpace :: "char \<Rightarrow> bool" where
  "isWhiteSpace c \<longleftrightarrow>
     c \<in> set [CHR 0x09, CHR 0x0A, CHR 0x0B, CHR 0x0C, CHR 0x0D, CHR 0x20, CHR 0xA0]"

definition trim :: "string \<Rightarrow> string" where
  "trim s = rev (dropWhile isWhiteSpace (rev (dropWhile isWhiteSpace s)))"

definition toLowerChar :: "char \<Rightarrow> char" where
  "toLowerChar c =
     (case map_of (zip ''ABCDEFGHIJKLMNOPQRSTUVWXYZ'' ''abcdefghijklmnopqrstuvwxyz'') c of
        Some l \<Rightarrow> l
      | None \<Rightarrow> c)"

definition toLowerCase :: "string \<Rightarrow> string" where
  "toLowerCase s = map toLowerChar s"

fun startsWith :: "string \<Rightarrow> string \<Rightarrow> bool" where
  "startsWith s [] = True"
| "startsWith [] (p # ps) = False"
| "startsWith (c # cs) (p # ps) = (c = p \<and> startsWith cs ps)"

fun includes' :: "string \<Rightarrow> string \<Rightarrow> bool" where
  "includes' [] sub = (sub = [])"
| "includes' (c # cs) sub = (startsWith (c # cs) sub \<or> includes' cs sub)"

subsection \<open>Promises and thrown values\<close>

text \<open>
  A thrown value is either an \<open>Error\<close> instance with its message or something else. An
  awaited call is a sum: \<open>Inl\<close> the rejection, \<open>Inr\<close> the value.
\<close>

datatype js_error = Error string | Thrown

type_synonym 'a promise = "js_error + 'a"

text \<open>\<open>p.catch(() => [])\<close>.\<close>

definition catch_empty :: "'a list promise \<Rightarrow> 'a list promise" where
  "catch_empty p = (case p of Inl _ \<Rightarrow> Inr [] | Inr v \<Rightarrow> Inr v)"

text \<open>\<open>Promise.all([a, b])\<close>: rejects as soon as one of the two rejects.\<close>

definition promise_all2 :: "'a promise \<Rightarrow> 'b promise \<Rightarrow> ('a \<times> 'b) promise" where
  "promise_all2 a b =
     (case a of
        Inl e \<Rightarrow> Inl e
      | Inr x \<Rightarrow> (case b of Inl e \<Rightarrow> Inl e | Inr y \<Rightarrow> Inr (x, y)))"

text \<open>\<open>err instanceof Error ? err : new Error(msg)\<close>.\<close>

definition as_Error :: "js_error \<Rightarrow> string \<Rightarrow> js_error" where
  "as_Error err msg = (case err of Error m \<Rightarrow> Error m | Thrown \<Rightarrow> Error msg)"

subsection \<open>The hook\<close>

text \<open>
  The two remote searches (\<open>searchFoods\<close> and \<open>searchIndianFoods\<close> of lib/api) are
  parameters: functions from the query to the outcome of the awaited call. Each hook
  function takes the current \<open>error\<close> state and returns the results with the new
  \<open>error\<close> state (\<open>None\<close> is \<open>null\<close>).
\<close>

definition searchFoods ::
  "(string \<Rightarrow> FoodSearchResult list promise) \<Rightarrow> js_error option \<Rightarrow> string
     \<Rightarrow> FoodSearchResult list \<times> js_error option" where
  "searchFoods searchFoodsApi error query =
     (if query = [] \<or> length (trim query) < 2 then ([], error)
      else (case searchFoodsApi query of
              Inr results \<Rightarrow> (results, None)
            | Inl err \<Rightarrow> ([], Some (as_Error err ''Unknown error occurred''))))"

definition searchIndianFoodsWithFormat ::
  "(string \<Rightarrow> IndianFood list promise) \<Rightarrow> js_error option \<Rightarrow> string
     \<Rightarrow> FoodSearchResult list \<times> js_error option" where
  "searchIndianFoodsWithFormat searchIndianFoods error query =
     (if query = [] \<or> length (trim query) < 2 then ([], error)
      else (case searchIndianFoods query of
              Inr results \<Rightarrow> (map (\<lambda>food. convertIndianFoodToSearchResult (Some food)) results, None)
            | Inl err \<Rightarrow> ([], Some (as_Error err ''Failed to search Indian foods''))))"

definition searchAllFoods ::
  "(string \<Rightarrow> FoodSearchResult list promise) \<Rightarrow> (string \<Rightarrow> IndianFood list promise)
     \<Rightarrow> js_error option \<Rightarrow> string \<Rightarrow> FoodSearchResult list \<times> js_error option" where
  "searchAllFoods searchFoodsApi searchIndianFoods error query =
     (if query = [] \<or> length (trim query) < 2 then ([], error)
      else (case promise_all2 (catch_empty (searchFoodsApi query))
                              (catch_empty (searchIndianFoods query)) of
              Inr (usda, indian) \<Rightarrow>
                (let formattedIndianFoods =
                       map (\<lambda>food. convertIndianFoodToSearchResult (Some food)) indian
                 in (formattedIndianFoods @ usda, None))
            | Inl err \<Rightarrow> ([], Some (as_Error err ''Error searching for foods''))))"

subsection \<open>The search effect of the form\<close>

datatype searchMode = ModeAll | ModeIndian | ModeUsda | ModeCustom

text \<open>The custom foods whose lower-cased name contains the lower-cased query.\<close>

definition filteredCustomFoods :: "CustomFood list \<Rightarrow> string \<Rightarrow> CustomFood list" where
  "filteredCustomFoods customFoods searchQuery =
     filter (\<lambda>food. includes' (toLowerCase (cf_foodName food)) (toLowerCase searchQuery))
       customFoods"

text \<open>
  The body of the debounced callback. \<open>customFoods\<close> is \<open>None\<close> while the query for the
  user's custom foods has no data. The result is the new \<open>searchResults\<close>, the new
  \<open>showResults\<close> and the hook's \<open>error\<close> state.
\<close>

definition searchEffect ::
  "(string \<Rightarrow> FoodSearchResult list promise) \<Rightarrow> (string \<Rightarrow> IndianFood list promise)
     \<Rightarrow> js_error option \<Rightarrow> searchMode \<Rightarrow> string \<Rightarrow> CustomFood list option
     \<Rightarrow> FoodSearchResult list \<times> bool \<times> js_error option" where
  "searchEffect searchFoodsApi searchIndianFoods error mode searchQuery customFoods =
     (if length searchQuery \<ge> 2 then
        (if mode = ModeIndian then
           (let (results, err) = searchIndianFoodsWithFormat searchIndianFoods error searchQuery
            in (results, True, err))
         else if mode = ModeUsda then
           (let (results, err) = searchFoods searchFoodsApi error searchQuery
            in (results, True, err))
         else if mode = ModeCustom \<and> customFoods \<noteq> None then
           (map convertCustomFoodToSearchResult
              (filteredCustomFoods (the customFoods) searchQuery), True, error)
         else if mode = ModeAll then
           (let (results, err) = searchAllFoods searchFoodsApi searchIndianFoods error searchQuery
            in (case customFoods of
                  Some cs \<Rightarrow>
                    (map convertCustomFoodToSearchResult (filteredCustomFoods cs searchQuery)
                       @ results, True, err)
                | None \<Rightarrow> (results, True, err)))
         else ([], True, error))
      else ([], False, error))"

section \<open>Server: storage and routes\<close>

text \<open>
  A table is the list of its rows in storage order with the next value of its serial id.
  A \<open>select\<close> returns the matching rows in that order.
\<close>

record 'r table =
  rows :: "'r list"
  nextId :: int

text \<open>A response is a status with a JSON body or with \<open>{ message }\<close>.\<close>

datatype 'a response = Json nat 'a | Message nat string | NoContent nat

fun status :: "'a response \<Rightarrow> nat" where
  "status (Json s _) = s"
| "status (Message s _) = s"
| "status (NoContent s) = s"

subsection \<open>Indian foods: batch creation\<close>

text \<open>A row without its id, as the insert schema yields it.\<close>

record InsertIndianFood =
  ins_foodName :: "string option"
  ins_calories :: "rat option"
  ins_protein :: "rat option"
  ins_carbs :: "rat option"
  ins_fat :: "rat option"
  ins_fiber :: "rat option"
  ins_calcium :: "rat option"
  ins_iron :: "rat option"
  ins_foodGroup :: "string option"
  ins_foodCode :: "string option"

definition indianFood_row :: "int \<Rightarrow> InsertIndianFood \<Rightarrow> IndianFood" where
  "indianFood_row i food =
     \<lparr> if_id = i, if_foodName = ins_foodName food, if_calories = ins_calories food,
       if_protein = ins_protein food, if_carbs = ins_carbs food, if_fat = ins_fat food,
       if_fiber = ins_fiber food, if_calcium = ins_calcium food, if_iron = ins_iron food,
       if_foodGroup = ins_foodGroup food, if_foodCode = ins_foodCode food \<rparr>"

text \<open>\<open>insert(...).values(foods).returning()\<close>: one statement, consecutive serial ids.\<close>

definition insert_indianFoods ::
  "InsertIndianFood list \<Rightarrow> IndianFood table \<Rightarrow> IndianFood list \<times> IndianFood table" where
  "insert_indianFoods foods tbl =
     (let created = map (\<lambda>(k, food). indianFood_row (nextId tbl + int k) food)
                      (enumerate 0 foods)
      in (created, \<lparr> rows = rows tbl @ created, nextId = nextId tbl + int (length foods) \<rparr>))"

definition createManyIndianFoods ::
  "InsertIndianFood list \<Rightarrow> IndianFood table \<Rightarrow> IndianFood list \<times> IndianFood table" where
  "createManyIndianFoods foods tbl =
     (if length foods = 0 then ([], tbl) else insert_indianFoods foods tbl)"

text \<open>
  \<open>foods.map(food => insertIndianFoodSchema.parse(food))\<close>: the schema is declared in
  shared/schema, outside the sources at hand, and is a parameter. \<open>parse\<close> returns the
  validated value or throws a \<open>ZodError\<close>, an \<open>Error\<close> whose message is \<open>Inl\<close>. The
  map stops at the first element that throws.
\<close>

fun parse_each :: "('raw \<Rightarrow> string + 'v) \<Rightarrow> 'raw list \<Rightarrow> js_error + 'v list" where
  "parse_each parse [] = Inr []"
| "parse_each parse (x # xs) =
     (case parse x of
        Inl msg \<Rightarrow> Inl (Error msg)
      | Inr v \<Rightarrow> (case parse_each parse xs of Inl e \<Rightarrow> Inl e | Inr vs \<Rightarrow> Inr (v # vs)))"

text \<open>
  \<open>POST /indian-foods/batch\<close>. The body is \<open>None\<close> when it is not an array. A caught
  \<open>Error\<close> answers 400 with its message, anything else 500.
\<close>

definition post_indian_foods_batch ::
  "('raw \<Rightarrow> string + InsertIndianFood) \<Rightarrow> 'raw list option \<Rightarrow> IndianFood table
     \<Rightarrow> IndianFood list response \<times> IndianFood table" where
  "post_indian_foods_batch parse body tbl =
     (case body of
        None \<Rightarrow> (Message 400 ''Request body must be an array'', tbl)
      | Some foods \<Rightarrow>
          (case parse_each parse foods of
             Inr validatedFoods \<Rightarrow>
               (let (createdFoods, tbl') = createManyIndianFoods validatedFoods tbl
                in (Json 201 createdFoods, tbl'))
           | Inl (Error msg) \<Rightarrow> (Message 400 msg, tbl)
           | Inl Thrown \<Rightarrow> (Message 500 ''Failed to create Indian foods batch'', tbl)))"

subsection \<open>Custom foods: reads\<close>

text \<open>
  \<open>ilike\<close> is the case-insensitive pattern match of the database: a parameter, applied
  to the column value and the pattern \<open>%query%\<close>. \<open>orderBy(foodName)\<close> is a stable sort
  on the name, the collation taken as the order of the character codes.
\<close>

definition getCustomFoods :: "CustomFood table \<Rightarrow> int \<Rightarrow> CustomFood list" where
  "getCustomFoods tbl userId =
     sort_key cf_foodName (filter (\<lambda>f. cf_userId f = userId) (rows tbl))"

definition getCustomFoodById :: "CustomFood table \<Rightarrow> int \<Rightarrow> CustomFood option" where
  "getCustomFoodById tbl i =
     (case filter (\<lambda>f. cf_id f = i) (rows tbl) of [] \<Rightarrow> None | f # _ \<Rightarrow> Some f)"

definition searchCustomFoods ::
  "(string \<Rightarrow> string \<Rightarrow> bool) \<Rightarrow> CustomFood table \<Rightarrow> int \<Rightarrow> string \<Rightarrow> CustomFood list" where
  "searchCustomFoods ilike tbl userId query =
     take 20 (filter (\<lambda>f. cf_userId f = userId
                          \<and> ilike (cf_foodName f) (''%'' @ query @ ''%'')) (rows tbl))"

text \<open>
  \<open>GET /custom-foods/:id\<close>: the request carries the id and nothing about the user who
  asks.
\<close>

definition get_custom_food_by_id :: "CustomFood table \<Rightarrow> int \<Rightarrow> CustomFood response" where
  "get_custom_food_by_id tbl i =
     (case getCustomFoodById tbl i of
        Some food \<Rightarrow> Json 200 food
      | None \<Rightarrow> Message 404 ''Custom food not found'')"

text \<open>
  The read operations of the custom-foods interface, each with the user on whose behalf
  it is invoked; for the fetch by id that user is no argument of the storage call.
\<close>

datatype custom_read = ListFoods | SearchFoods string | FetchById int

fun custom_read_result ::
  "(string \<Rightarrow> string \<Rightarrow> bool) \<Rightarrow> CustomFood table \<Rightarrow> int \<Rightarrow> custom_read \<Rightarrow> CustomFood list" where
  "custom_read_result ilike tbl caller ListFoods = getCustomFoods tbl caller"
| "custom_read_result ilike tbl caller (SearchFoods q) = searchCustomFoods ilike tbl caller q"
| "custom_read_result ilike tbl caller (FetchById i) =
     (case get_custom_food_by_id tbl i of Json _ food \<Rightarrow> [food] | _ \<Rightarrow> [])"

subsection \<open>Water intake\<close>

text \<open>
  Modelled from the spec: the table \<open>waterIntake\<close> is declared in shared/schema, outside
  the sources at hand. Its rows carry id, userId, date, amount and goal, and no unique
  constraint on (userId, date) stands behind the upsert.
\<close>

record WaterIntake =
  wi_id :: int
  wi_userId :: int
  wi_date :: string
  wi_amount :: rat
  wi_goal :: rat

record InsertWaterIntake =
  iw_userId :: int
  iw_date :: string
  iw_amount :: rat
  iw_goal :: rat

definition getWaterIntake :: "WaterIntake table \<Rightarrow> int \<Rightarrow> string \<Rightarrow> WaterIntake option" where
  "getWaterIntake tbl userId date =
     (case filter (\<lambda>r. wi_userId r = userId \<and> wi_date r = date) (rows tbl) of
        [] \<Rightarrow> None
      | r # _ \<Rightarrow> Some r)"

text \<open>
  \<open>update(...).set({amount, goal}).where(eq(id, existing.id)).returning()\<close>, then
  \<open>result[0]\<close>.
\<close>

definition update_waterIntake ::
  "int \<Rightarrow> rat \<Rightarrow> rat \<Rightarrow> WaterIntake table \<Rightarrow> WaterIntake option \<times> WaterIntake table" where
  "update_waterIntake i amount goal tbl =
     (let rows' = map (\<lambda>r. if wi_id r = i then r\<lparr> wi_amount := amount, wi_goal := goal \<rparr> else r)
                    (rows tbl)
      in (case filter (\<lambda>r. wi_id r = i) rows' of [] \<Rightarrow> None | r # _ \<Rightarrow> Some r,
          tbl\<lparr> rows := rows' \<rparr>))"

text \<open>\<open>insert(...).values(data).returning()\<close>, then \<open>result[0]\<close>.\<close>

definition insert_waterIntake ::
  "InsertWaterIntake \<Rightarrow> WaterIntake table \<Rightarrow> WaterIntake option \<times> WaterIntake table" where
  "insert_waterIntake data tbl =
     (let r = \<lparr> wi_id = nextId tbl, wi_userId = iw_userId data, wi_date = iw_date data,
                wi_amount = iw_amount data, wi_goal = iw_goal data \<rparr>
      in (Some r, \<lparr> rows = rows tbl @ [r], nextId = nextId tbl + 1 \<rparr>))"

text \<open>One call of \<open>createOrUpdateWaterIntake\<close> that runs with no other request in between.\<close>

definition createOrUpdateWaterIntake ::
  "InsertWaterIntake \<Rightarrow> WaterIntake table \<Rightarrow> WaterIntake option \<times> WaterIntake table" where
  "createOrUpdateWaterIntake data tbl =
     (case getWaterIntake tbl (iw_userId data) (iw_date data) of
        Some existing \<Rightarrow> update_waterIntake (wi_id existing) (iw_amount data) (iw_goal data) tbl
      | None \<Rightarrow> insert_waterIntake data tbl)"

text \<open>
  The same call as a task of the cooperative scheduler: it suspends at each \<open>await\<close>, so
  it runs in two steps, the read and then the write chosen from what the read returned.
  Between the two steps another request may run.
\<close>

datatype upsert_task =
    Start InsertWaterIntake
  | AfterRead InsertWaterIntake "WaterIntake option"
  | Returned "WaterIntake option"

fun upsert_step :: "upsert_task \<Rightarrow> WaterIntake table \<Rightarrow> upsert_task \<times> WaterIntake table" where
  "upsert_step (Start data) tbl =
     (AfterRead data (getWaterIntake tbl (iw_userId data) (iw_date data)), tbl)"
| "upsert_step (AfterRead data (Some existing)) tbl =
     (let (r, tbl') = update_waterIntake (wi_id existing) (iw_amount data) (iw_goal data) tbl
      in (Returned r, tbl'))"
| "upsert_step (AfterRead data None) tbl =
     (let (r, tbl') = insert_waterIntake data tbl in (Returned r, tbl'))"
| "upsert_step (Returned r) tbl = (Returned r, tbl)"

text \<open>
  Two requests in flight: the schedule says, step by step, which of the two runs next
  (\<open>False\<close> the first, \<open>True\<close> the second).
\<close>

fun run_two ::
  "bool list \<Rightarrow> upsert_task \<times> upsert_task \<times> WaterIntake table
     \<Rightarrow> upsert_task \<times> upsert_task \<times> WaterIntake table" where
  "run_two [] st = st"
| "run_two (False # sched) (t1, t2, tbl) =
     (let (t1', tbl') = upsert_step t1 tbl in run_two sched (t1', t2, tbl'))"
| "run_two (True # sched) (t1, t2, tbl) =
     (let (t2', tbl') = upsert_step t2 tbl in run_two sched (t1, t2', tbl'))"

definition is_returned :: "upsert_task \<Rightarrow> bool" where
  "is_returned t = (case t of Returned _ \<Rightarrow> True | _ \<Rightarrow> False)"

text \<open>The stored records of one (user, date) pair.\<close>

definition records_for :: "WaterIntake table \<Rightarrow> int \<Rightarrow> string \<Rightarrow> WaterIntake list" where
  "records_for tbl userId date =
     filter (\<lambda>r. wi_userId r = userId \<and> wi_date r = date) (rows tbl)"

text \<open>
  \<open>PATCH /water-intake/:id\<close>. The body may carry an amount and a goal. \<open>a || b\<close> on a
  number takes \<open>b\<close> when \<open>a\<close> is missing or 0.
\<close>

record patch_body =
  pb_amount :: "rat option"
  pb_goal :: "rat option"

definition or_number :: "rat option \<Rightarrow> rat \<Rightarrow> rat" where
  "or_number a b = (case a of None \<Rightarrow> b | Some v \<Rightarrow> if v = 0 then b else v)"

definition patch_water_intake ::
  "int \<Rightarrow> patch_body \<Rightarrow> WaterIntake table \<Rightarrow> WaterIntake option response \<times> WaterIntake table" where
  "patch_water_intake i body tbl =
     (case filter (\<lambda>r. wi_id r = i) (rows tbl) of
        [] \<Rightarrow> (Message 404 ''Water intake record not found'', tbl)
      | existing # _ \<Rightarrow>
          (let updatedData =
                 \<lparr> iw_userId = wi_userId existing,
                   iw_date = wi_date existing,
                   iw_amount = or_number (pb_amount body) (wi_amount existing),
                   iw_goal = or_number (pb_goal body) (wi_goal existing) \<rparr>;
               (intake, tbl') = createOrUpdateWaterIntake updatedData tbl
           in (Json 200 intake, tbl')))"


section \<open>Sample data\<close>

definition sample_nutrient :: "int \<Rightarrow> rat \<Rightarrow> nutrient" where
  "sample_nutrient i v =
     \<lparr> nutrientId = i, nutrientName = ''n'', nutrientNumber = ''0'', unitName = ''g'',
       value' = v \<rparr>"

definition sample_result :: "string \<Rightarrow> nutrient list \<Rightarrow> FoodSearchResult" where
  "sample_result i ns =
     \<lparr> fdcId = i, description = ''Sample food'', nutrients = ns,
       dataType = None, foodCode = None, brandName = None, foodGroup = None,
       isIndianFood = False, isCustomFood = False \<rparr>"

definition sample_custom :: "int \<Rightarrow> int \<Rightarrow> string \<Rightarrow> CustomFood" where
  "sample_custom i u name =
     \<lparr> cf_id = i, cf_userId = u, cf_foodName = name, cf_calories = 200, cf_protein = 20,
       cf_carbs = 22, cf_fat = 6, cf_fiber = Some 5, cf_calcium = Some 40, cf_iron = Some 2,
       cf_foodGroup = None \<rparr>"

definition sample_indian :: "int \<Rightarrow> string \<Rightarrow> IndianFood" where
  "sample_indian i name =
     \<lparr> if_id = i, if_foodName = Some name, if_calories = Some 130, if_protein = None,
       if_carbs = Some 27, if_fat = None, if_fiber = Some 2, if_calcium = None, if_iron = None,
       if_foodGroup = None, if_foodCode = None \<rparr>"

definition sample_insert :: "string \<Rightarrow> InsertIndianFood" where
  "sample_insert name =
     \<lparr> ins_foodName = Some name, ins_calories = Some 130, ins_protein = None,
       ins_carbs = Some 27, ins_fat = None, ins_fiber = Some 2, ins_calcium = None,
       ins_iron = None, ins_foodGroup = None, ins_foodCode = None \<rparr>"

text \<open>A schema on raw bodies that are either a well-formed record or not (\<open>None\<close>).\<close>

definition sample_parse :: "InsertIndianFood option \<Rightarrow> string + InsertIndianFood" where
  "sample_parse raw = (case raw of None \<Rightarrow> Inl ''Required'' | Some v \<Rightarrow> Inr v)"

definition sample_water :: "int \<Rightarrow> int \<Rightarrow> string \<Rightarrow> rat \<Rightarrow> rat \<Rightarrow> WaterIntake" where
  "sample_water i u d a g =
     \<lparr> wi_id = i, wi_userId = u, wi_date = d, wi_amount = a, wi_goal = g \<rparr>"

definition sample_upsert :: "int \<Rightarrow> string \<Rightarrow> rat \<Rightarrow> rat \<Rightarrow> InsertWaterIntake" where
  "sample_upsert u d a g = \<lparr> iw_userId = u, iw_date = d, iw_amount = a, iw_goal = g \<rparr>"

section \<open>Properties of the nutrition calculation\<close>

lemma find_filter_conv:
  "find P xs = (case filter P xs of [] \<Rightarrow> None | x # _ \<Rightarrow> Some x)"
  by (induction xs) auto

lemma getNutrientValue_spec:
  "getNutrientValue (Some ns) nid = lookupNutrientValue_spec ns nid"
  by (simp add: getNutrientValue_def lookupNutrientValue_spec_def find_filter_conv
      split: list.splits)

lemma getNutrientValue_missing:
  "nid \<notin> nutrientId ` set ns \<Longrightarrow> getNutrientValue (Some ns) nid = 0"
proof -
  assume "nid \<notin> nutrientId ` set ns"
  then have "filter (\<lambda>n. nutrientId n = nid) ns = []"
    by (auto simp: filter_empty_conv)
  then show ?thesis
    by (simp add: getNutrientValue_spec lookupNutrientValue_spec_def)
qed

lemma getNutrientValue_present:
  assumes "n \<in> set ns" and "nutrientId n = nid"
    and "distinct (map nutrientId ns)"
  shows "getNutrientValue (Some ns) nid = value' n"
  using assms
proof (induction ns)
  case Nil
  then show ?case by simp
next
  case (Cons a ns)
  show ?case
  proof (cases "nutrientId a = nid")
    case True
    with Cons.prems have "a = n" by (auto simp: image_iff)
    with True show ?thesis by (simp add: getNutrientValue_def)
  next
    case False
    with Cons.prems have "n \<in> set ns" "distinct (map nutrientId ns)" by auto
    with Cons.IH Cons.prems(2) have "getNutrientValue (Some ns) nid = value' n" by simp
    with False show ?thesis by (simp add: getNutrientValue_def)
  qed
qed

text \<open>
  Claim C1. For every search result and every quantity, each macro that \<open>handleAddFood\<close>
  submits is the looked-up value of the canonical nutrient id (1008 calories, 1003 protein,
  1005 carbohydrates, 1004 fat) times \<open>quantity / 100\<close>; the lookup is the value of the
  entry with that id, and 0 when no entry has it or the list is undefined, so an item is
  always produced. A result with 50 calories per 100 units and quantity 200 gives 100
  calories, and quantity 0 gives all zeros.
\<close>

theorem C1_nutrition_scaled_lookup:
  "(\<exists>item. handleAddFood uid d (Some food) q u m = Some item
      \<and> fi_calories item = lookupNutrientValue_spec (nutrients food) 1008 * (q / 100)
      \<and> fi_protein item = lookupNutrientValue_spec (nutrients food) 1003 * (q / 100)
      \<and> fi_carbs item = lookupNutrientValue_spec (nutrients food) 1005 * (q / 100)
      \<and> fi_fat item = lookupNutrientValue_spec (nutrients food) 1004 * (q / 100))
   \<and> (\<forall>nid. nid \<notin> nutrientId ` set (nutrients food)
          \<longrightarrow> getNutrientValue (Some (nutrients food)) nid = 0)
   \<and> (\<forall>nid. getNutrientValue None nid = 0)
   \<and> (\<forall>n\<in>set (nutrients food). distinct (map nutrientId (nutrients food))
          \<longrightarrow> getNutrientValue (Some (nutrients food)) (nutrientId n) = value' n)
   \<and> (getNutrientValue (Some (nutrients food)) 1008 = 50
          \<longrightarrow> m_calories (calculateNutrition food (200 / 100)) = 100)
   \<and> calculateNutrition food (0 / 100)
        = \<lparr> m_calories = 0, m_protein = 0, m_carbs = 0, m_fat = 0 \<rparr>"
proof -
  have a: "\<exists>item. handleAddFood uid d (Some food) q u m = Some item
      \<and> fi_calories item = lookupNutrientValue_spec (nutrients food) 1008 * (q / 100)
      \<and> fi_protein item = lookupNutrientValue_spec (nutrients food) 1003 * (q / 100)
      \<and> fi_carbs item = lookupNutrientValue_spec (nutrients food) 1005 * (q / 100)
      \<and> fi_fat item = lookupNutrientValue_spec (nutrients food) 1004 * (q / 100)"
    by (simp add: handleAddFood_def calculateNutrition_def getNutrientValue_spec
        CALORIES_ID_def PROTEIN_ID_def CARBS_ID_def FAT_ID_def Let_def)
  have b: "\<forall>nid. nid \<notin> nutrientId ` set (nutrients food)
          \<longrightarrow> getNutrientValue (Some (nutrients food)) nid = 0"
    using getNutrientValue_missing by blast
  have c: "\<forall>nid. getNutrientValue None nid = 0"
    by (simp add: getNutrientValue_def)
  have e: "\<forall>n\<in>set (nutrients food). distinct (map nutrientId (nutrients food))
          \<longrightarrow> getNutrientValue (Some (nutrients food)) (nutrientId n) = value' n"
    using getNutrientValue_present by blast
  have f: "getNutrientValue (Some (nutrients food)) 1008 = 50
          \<longrightarrow> m_calories (calculateNutrition food (200 / 100)) = 100"
    by (simp add: calculateNutrition_def CALORIES_ID_def)
  have g: "calculateNutrition food (0 / 100)
        = \<lparr> m_calories = 0, m_protein = 0, m_carbs = 0, m_fat = 0 \<rparr>"
    by (simp add: calculateNutrition_def)
  from a b c e f g show ?thesis by blast
qed

theorem C1_nutrition_scaled_lookup_witness:
  "1005 \<notin> nutrientId ` set (nutrients (sample_result ''1''
        [sample_nutrient 1008 50, sample_nutrient 1003 10]))
   \<and> getNutrientValue (Some (nutrients (sample_result ''1''
        [sample_nutrient 1008 50, sample_nutrient 1003 10]))) 1005 = 0
   \<and> sample_nutrient 1003 10 \<in> set (nutrients (sample_result ''1''
        [sample_nutrient 1008 50, sample_nutrient 1003 10]))
   \<and> distinct (map nutrientId (nutrients (sample_result ''1''
        [sample_nutrient 1008 50, sample_nutrient 1003 10])))
   \<and> getNutrientValue (Some (nutrients (sample_result ''1''
        [sample_nutrient 1008 50, sample_nutrient 1003 10]))) 1003 = 10
   \<and> getNutrientValue (Some (nutrients (sample_result ''1''
        [sample_nutrient 1008 50, sample_nutrient 1003 10]))) 1008 = 50
   \<and> m_calories (calculateNutrition (sample_result ''1''
        [sample_nutrient 1008 50, sample_nutrient 1003 10]) (200 / 100)) = 100
   \<and> (\<exists>item. handleAddFood 1 ''2024-01-01'' (Some (sample_result ''1''
        [sample_nutrient 1008 50, sample_nutrient 1003 10])) 200 ''g'' ''lunch'' = Some item
        \<and> fi_calories item = 100 \<and> fi_protein item = 20 \<and> fi_carbs item = 0
        \<and> fi_fat item = 0)"
  using C1_nutrition_scaled_lookup [of 1 "''2024-01-01''"
      "sample_result ''1'' [sample_nutrient 1008 50, sample_nutrient 1003 10]"
      200 "''g''" "''lunch''"]
  by (simp add: sample_result_def sample_nutrient_def getNutrientValue_def
      lookupNutrientValue_spec_def)

section \<open>Properties of the micro-nutrient lines\<close>

text \<open>
  Claim C6, as stated, at two inputs. With fiber 5 per 100 units and quantity 0 the fiber
  line is rendered (showing 0) although the scaled value is not above 0. With calcium 5
  per 100 units, no fiber entry and quantity 100 the calcium span is not rendered although
  its scaled value is 5.
\<close>

theorem C6_micro_display_counterexample:
  "shown_fiber (microNutrientDisplay (sample_result ''1'' [sample_nutrient 1079 5]) 0) = Some 0
   \<and> \<not> 0 < getNutrientValue (Some (nutrients (sample_result ''1'' [sample_nutrient 1079 5]))) 1079
            * (0 / 100)
   \<and> shown_calcium (microNutrientDisplay (sample_result ''2'' [sample_nutrient 1087 5]) 100) = None
   \<and> 0 < getNutrientValue (Some (nutrients (sample_result ''2'' [sample_nutrient 1087 5]))) 1087
            * (100 / 100)"
  by (simp add: microNutrientDisplay_def getNutrientValue_def sample_result_def
      sample_nutrient_def Math_round_def floor_eq_iff)

text \<open>
  Claim C6, amended. For every search result and quantity, the fiber line appears exactly
  when the result's fiber value per 100 units is above 0; calcium and iron appear only when
  their own value per 100 units is above 0, and where the fiber line appears they appear
  exactly then. For a quantity above 0 a value per 100 units is above 0 exactly when the
  scaled value is. Each micro-nutrient that appears shows its own value times
  \<open>quantity / 100\<close>, rounded.
\<close>

theorem C6_micro_display_gate:
  "(shown_fiber (microNutrientDisplay food q) \<noteq> None
       \<longleftrightarrow> 0 < getNutrientValue (Some (nutrients food)) 1079)
   \<and> (shown_calcium (microNutrientDisplay food q) \<noteq> None
         \<longrightarrow> 0 < getNutrientValue (Some (nutrients food)) 1087)
   \<and> (shown_iron (microNutrientDisplay food q) \<noteq> None
         \<longrightarrow> 0 < getNutrientValue (Some (nutrients food)) 1089)
   \<and> (shown_fiber (microNutrientDisplay food q) \<noteq> None
         \<longrightarrow> (shown_calcium (microNutrientDisplay food q) \<noteq> None
                \<longleftrightarrow> 0 < getNutrientValue (Some (nutrients food)) 1087)
           \<and> (shown_iron (microNutrientDisplay food q) \<noteq> None
                \<longleftrightarrow> 0 < getNutrientValue (Some (nutrients food)) 1089))
   \<and> (0 < q \<longrightarrow> (\<forall>nid. 0 < getNutrientValue (Some (nutrients food)) nid * (q / 100)
                        \<longleftrightarrow> 0 < getNutrientValue (Some (nutrients food)) nid))
   \<and> (\<forall>x. shown_fiber (microNutrientDisplay food q) = Some x
         \<longrightarrow> x = Math_round (getNutrientValue (Some (nutrients food)) 1079 * (q / 100)))
   \<and> (\<forall>x. shown_calcium (microNutrientDisplay food q) = Some x
         \<longrightarrow> x = Math_round (getNutrientValue (Some (nutrients food)) 1087 * (q / 100)))
   \<and> (\<forall>x. shown_iron (microNutrientDisplay food q) = Some x
         \<longrightarrow> x = Math_round (getNutrientValue (Some (nutrients food)) 1089 * (q / 100)))"
proof -
  have scaled: "0 < q \<longrightarrow> (\<forall>nid. 0 < getNutrientValue (Some (nutrients food)) nid * (q / 100)
                        \<longleftrightarrow> 0 < getNutrientValue (Some (nutrients food)) nid)"
    by (simp add: zero_less_mult_iff)
  have gate: "(shown_fiber (microNutrientDisplay food q) \<noteq> None
       \<longleftrightarrow> 0 < getNutrientValue (Some (nutrients food)) 1079)
   \<and> (shown_calcium (microNutrientDisplay food q) \<noteq> None
         \<longrightarrow> 0 < getNutrientValue (Some (nutrients food)) 1087)
   \<and> (shown_iron (microNutrientDisplay food q) \<noteq> None
         \<longrightarrow> 0 < getNutrientValue (Some (nutrients food)) 1089)
   \<and> (shown_fiber (microNutrientDisplay food q) \<noteq> None
         \<longrightarrow> (shown_calcium (microNutrientDisplay food q) \<noteq> None
                \<longleftrightarrow> 0 < getNutrientValue (Some (nutrients food)) 1087)
           \<and> (shown_iron (microNutrientDisplay food q) \<noteq> None
                \<longleftrightarrow> 0 < getNutrientValue (Some (nutrients food)) 1089))"
    by (simp add: microNutrientDisplay_def Let_def)
  have shown: "(\<forall>x. shown_fiber (microNutrientDisplay food q) = Some x
         \<longrightarrow> x = Math_round (getNutrientValue (Some (nutrients food)) 1079 * (q / 100)))
   \<and> (\<forall>x. shown_calcium (microNutrientDisplay food q) = Some x
         \<longrightarrow> x = Math_round (getNutrientValue (Some (nutrients food)) 1087 * (q / 100)))
   \<and> (\<forall>x. shown_iron (microNutrientDisplay food q) = Some x
         \<longrightarrow> x = Math_round (getNutrientValue (Some (nutrients food)) 1089 * (q / 100)))"
    by (auto simp: microNutrientDisplay_def Let_def split: if_splits)
  from scaled gate shown show ?thesis by blast
qed

theorem C6_micro_display_gate_witness:
  "(0::rat) < 200
   \<and> 0 < getNutrientValue (Some (nutrients (sample_result ''1'' [sample_nutrient 1079 3,
        sample_nutrient 1087 5, sample_nutrient 1089 0]))) 1079
   \<and> microNutrientDisplay (sample_result ''1'' [sample_nutrient 1079 3, sample_nutrient 1087 5,
        sample_nutrient 1089 0]) 200
     = \<lparr> shown_fiber = Some 6, shown_calcium = Some 10, shown_iron = None \<rparr>"
  using C6_micro_display_gate [of "sample_result ''1'' [sample_nutrient 1079 3,
      sample_nutrient 1087 5, sample_nutrient 1089 0]" 200]
  by (simp add: microNutrientDisplay_def getNutrientValue_def sample_result_def
      sample_nutrient_def Math_round_def floor_eq_iff)

section \<open>Properties of the source adapters\<close>

lemma digit_char_digit: "digit_char n \<in> set ''0123456789''"
  unfolding digit_char_def by (rule nth_mem) simp

lemma nat_to_string_hd:
  "nat_to_string n \<noteq> [] \<and> hd (nat_to_string n) \<in> set ''0123456789''"
proof (induction n rule: nat_to_string.induct)
  case (1 n)
  show ?case
  proof (cases "n < 10")
    case True
    then show ?thesis using digit_char_digit [of n] by simp
  next
    case False
    with 1 have "nat_to_string (n div 10) \<noteq> []
        \<and> hd (nat_to_string (n div 10)) \<in> set ''0123456789''"
      by simp
    moreover have "nat_to_string n = nat_to_string (n div 10) @ [digit_char (n mod 10)]"
      using False by (subst nat_to_string.simps) simp
    ultimately show ?thesis by simp
  qed
qed

lemma number_to_string_hd:
  "number_to_string i \<noteq> [] \<and> hd (number_to_string i) \<in> set ''-0123456789''"
  using nat_to_string_hd [of "nat i"] nat_to_string_hd [of "nat (- i)"]
  by (simp add: number_to_string_def)

lemma usda_fdcId_hd: "usda_fdcId k \<noteq> [] \<and> hd (usda_fdcId k) \<in> set ''-0123456789''"
  unfolding usda_fdcId_def by (rule number_to_string_hd)

lemma indian_fdcId_hd: "hd (fdcId (convertIndianFoodToSearchResult fo)) = CHR ''i''"
  by (cases fo) (simp_all add: convertIndianFoodToSearchResult_def)

lemma custom_fdcId_hd: "hd (fdcId (convertCustomFoodToSearchResult c)) = CHR ''c''"
  by (simp add: convertCustomFoodToSearchResult_def)

text \<open>
  The curated adapter fills the seven canonical slots in order, puts 0 where a native field
  is missing, and answers a null record with the placeholder.
\<close>

lemma convertIndian_seven_slots:
  "map nutrientId (nutrients (convertIndianFoodToSearchResult (Some food)))
     = canonical_nutrient_ids"
  by (simp add: convertIndianFoodToSearchResult_def canonical_nutrient_ids_def)

lemma convertIndian_missing_fields_zero:
  assumes "if_calories food = None" "if_protein food = None" "if_carbs food = None"
    "if_fat food = None" "if_fiber food = None" "if_calcium food = None" "if_iron food = None"
  shows "map value' (nutrients (convertIndianFoodToSearchResult (Some food)))
     = [0, 0, 0, 0, 0, 0, 0]"
  using assms by (simp add: convertIndianFoodToSearchResult_def or_zero_def)

lemma convertIndian_null_placeholder:
  "description (convertIndianFoodToSearchResult None) = ''Invalid food data''
   \<and> nutrients (convertIndianFoodToSearchResult None) = []"
  by (simp add: convertIndianFoodToSearchResult_def)

text \<open>
  Claim C4, at a well-formed custom food with fiber 5, calcium 40 and iron 2: the custom
  adapter returns the four macro slots only, so the slots differ from the seven canonical
  ones and the fiber lookup on its result is 0, while the curated adapter fills all seven.
\<close>

theorem C4_custom_adapter_four_slots:
  "map nutrientId (nutrients (convertCustomFoodToSearchResult (sample_custom 3 1 ''Protein bar'')))
     = [1008, 1003, 1005, 1004]
   \<and> cf_fiber (sample_custom 3 1 ''Protein bar'') = Some 5
   \<and> map nutrientId (nutrients (convertCustomFoodToSearchResult (sample_custom 3 1 ''Protein bar'')))
     \<noteq> canonical_nutrient_ids
   \<and> getNutrientValue (Some (nutrients (convertCustomFoodToSearchResult
        (sample_custom 3 1 ''Protein bar'')))) 1079 = 0
   \<and> map nutrientId (nutrients (convertIndianFoodToSearchResult (Some (sample_indian 3 ''Poha''))))
     = canonical_nutrient_ids"
  by (simp add: convertCustomFoodToSearchResult_def convertIndianFoodToSearchResult_def
      sample_custom_def sample_indian_def canonical_nutrient_ids_def getNutrientValue_def)

text \<open>
  Claim C5. For every curated record (or null), custom record and USDA number, the
  canonical ids of the three sources are pairwise different: a curated id n gives
  \<open>indian-n\<close>, a custom id m gives \<open>custom-m\<close>, a USDA id is its own number; curated id 5
  and custom id 5 give \<open>indian-5\<close> and \<open>custom-5\<close>.
\<close>

theorem C5_ids_pairwise_disjoint:
  "fdcId (convertIndianFoodToSearchResult fo) \<noteq> fdcId (convertCustomFoodToSearchResult c)
   \<and> fdcId (convertIndianFoodToSearchResult fo) \<noteq> usda_fdcId k
   \<and> fdcId (convertCustomFoodToSearchResult c) \<noteq> usda_fdcId k
   \<and> fdcId (convertIndianFoodToSearchResult (Some f)) = ''indian-'' @ number_to_string (if_id f)
   \<and> fdcId (convertCustomFoodToSearchResult c) = ''custom-'' @ number_to_string (cf_id c)
   \<and> fdcId (convertIndianFoodToSearchResult (Some (f\<lparr> if_id := 5 \<rparr>))) = ''indian-5''
   \<and> fdcId (convertCustomFoodToSearchResult (c\<lparr> cf_id := 5 \<rparr>)) = ''custom-5''"
proof -
  have ic: "fdcId (convertIndianFoodToSearchResult fo)
      \<noteq> fdcId (convertCustomFoodToSearchResult c)"
    using indian_fdcId_hd [of fo] custom_fdcId_hd [of c] by auto
  have iu: "fdcId (convertIndianFoodToSearchResult fo) \<noteq> usda_fdcId k"
    using indian_fdcId_hd [of fo] usda_fdcId_hd [of k] by auto
  have cu: "fdcId (convertCustomFoodToSearchResult c) \<noteq> usda_fdcId k"
    using custom_fdcId_hd [of c] usda_fdcId_hd [of k] by auto
  have i5: "fdcId (convertIndianFoodToSearchResult (Some (f\<lparr> if_id := 5 \<rparr>))) = ''indian-5''"
    by (simp add: convertIndianFoodToSearchResult_def number_to_string_def digit_char_def)
  have c5: "fdcId (convertCustomFoodToSearchResult (c\<lparr> cf_id := 5 \<rparr>)) = ''custom-5''"
    by (simp add: convertCustomFoodToSearchResult_def number_to_string_def digit_char_def)
  show ?thesis
    using ic iu cu i5 c5
    by (simp add: convertIndianFoodToSearchResult_def convertCustomFoodToSearchResult_def)
qed

section \<open>Properties of the search unifier\<close>

lemma length_trim_le: "length (trim q) \<le> length q"
proof -
  have "length (trim q) \<le> length (rev (dropWhile isWhiteSpace q))"
    unfolding trim_def
    using length_dropWhile_le [of isWhiteSpace "rev (dropWhile isWhiteSpace q)"] by simp
  also have "\<dots> \<le> length q" by (simp add: length_dropWhile_le)
  finally show ?thesis .
qed

text \<open>
  Past the length guard the combined search is the curated results followed by the USDA
  results, a rejected source counting as the empty list, and the error state is cleared.
\<close>

lemma searchAllFoods_long:
  assumes "2 \<le> length (trim q)"
  shows "searchAllFoods usdaApi indianApi err q =
     (map (\<lambda>food. convertIndianFoodToSearchResult (Some food))
          (case indianApi q of Inl _ \<Rightarrow> [] | Inr v \<Rightarrow> v)
        @ (case usdaApi q of Inl _ \<Rightarrow> [] | Inr v \<Rightarrow> v), None)"
proof -
  from assms have "q \<noteq> []" by (auto simp: trim_def)
  with assms show ?thesis
    by (simp add: searchAllFoods_def promise_all2_def catch_empty_def split: sum.splits)
qed

lemma searchAllFoods_no_new_error: "snd (searchAllFoods usdaApi indianApi None q) = None"
  by (simp add: searchAllFoods_def promise_all2_def catch_empty_def split: sum.splits)

text \<open>
  Claim C3. For every query that passes the length guard of the search (trimmed length at
  least 2), in mode all, when the USDA search returns \<open>us\<close> and the curated search returns
  \<open>ins\<close>, the results are the matching custom foods, then the curated foods, then the
  USDA foods, each group converted and in the order its source gave, nothing re-sorted and
  nothing removed.
\<close>

theorem C3_all_mode_custom_curated_usda:
  assumes "2 \<le> length (trim q)"
    and "usdaApi q = Inr us" and "indianApi q = Inr ins"
  shows "fst (searchEffect usdaApi indianApi err ModeAll q (Some cs))
     = map convertCustomFoodToSearchResult (filteredCustomFoods cs q)
       @ map (\<lambda>food. convertIndianFoodToSearchResult (Some food)) ins
       @ us"
proof -
  from assms(1) length_trim_le [of q] have len: "2 \<le> length q" by simp
  show ?thesis
    using len assms(2,3) by (simp add: searchEffect_def searchAllFoods_long [OF assms(1)])
qed

theorem C3_all_mode_custom_curated_usda_witness:
  "2 \<le> length (trim ''dal'')
   \<and> fst (searchEffect (\<lambda>_. Inr [sample_result ''171688'' [sample_nutrient 1008 116]])
             (\<lambda>_. Inr [sample_indian 5 ''Dal'']) None ModeAll ''dal''
             (Some [sample_custom 5 1 ''Dal'', sample_custom 6 1 ''Rice'']))
     = [convertCustomFoodToSearchResult (sample_custom 5 1 ''Dal''),
        convertIndianFoodToSearchResult (Some (sample_indian 5 ''Dal'')),
        sample_result ''171688'' [sample_nutrient 1008 116]]"
  using C3_all_mode_custom_curated_usda [of "''dal''"
      "\<lambda>_. Inr [sample_result ''171688'' [sample_nutrient 1008 116]]"
      "[sample_result ''171688'' [sample_nutrient 1008 116]]"
      "\<lambda>_. Inr [sample_indian 5 ''Dal'']" "[sample_indian 5 ''Dal'']" None
      "[sample_custom 5 1 ''Dal'', sample_custom 6 1 ''Rice'']"]
  by (simp add: trim_def isWhiteSpace_def filteredCustomFoods_def sample_custom_def
      toLowerCase_def toLowerChar_def)

text \<open>
  Claim C7. In mode all the combined search never ends in an error, whatever the two
  remote searches do. For a query that passes the length guard: when the USDA search
  rejects, the curated results are returned; when the curated search rejects, the USDA
  results are returned; when both reject, the list is empty; when both succeed, both are
  returned; and in each case the form still puts the matching custom foods in front.
\<close>

theorem C7_all_mode_isolates_failures:
  "snd (searchAllFoods usdaApi indianApi None q) = None
   \<and> (2 \<le> length (trim q) \<longrightarrow>
        (usdaApi q = Inl e \<and> indianApi q = Inr ins
            \<longrightarrow> searchAllFoods usdaApi indianApi err q
                  = (map (\<lambda>food. convertIndianFoodToSearchResult (Some food)) ins, None))
      \<and> (usdaApi q = Inr us \<and> indianApi q = Inl e
            \<longrightarrow> searchAllFoods usdaApi indianApi err q = (us, None))
      \<and> (usdaApi q = Inl e \<and> indianApi q = Inl e'
            \<longrightarrow> searchAllFoods usdaApi indianApi err q = ([], None))
      \<and> (usdaApi q = Inr us \<and> indianApi q = Inr ins
            \<longrightarrow> searchAllFoods usdaApi indianApi err q
                  = (map (\<lambda>food. convertIndianFoodToSearchResult (Some food)) ins @ us, None))
      \<and> searchEffect usdaApi indianApi err ModeAll q (Some cs)
           = (map convertCustomFoodToSearchResult (filteredCustomFoods cs q)
                @ fst (searchAllFoods usdaApi indianApi err q), True, None))"
proof (intro conjI impI)
  show "snd (searchAllFoods usdaApi indianApi None q) = None"
    by (rule searchAllFoods_no_new_error)
next
  assume g: "2 \<le> length (trim q)"
  note long = searchAllFoods_long [OF g, of usdaApi indianApi err]
  from g length_trim_le [of q] have len: "2 \<le> length q" by simp
  {
    assume "usdaApi q = Inl e \<and> indianApi q = Inr ins"
    then show "searchAllFoods usdaApi indianApi err q
        = (map (\<lambda>food. convertIndianFoodToSearchResult (Some food)) ins, None)"
      by (simp add: long)
  }
  {
    assume "usdaApi q = Inr us \<and> indianApi q = Inl e"
    then show "searchAllFoods usdaApi indianApi err q = (us, None)"
      by (simp add: long)
  }
  {
    assume "usdaApi q = Inl e \<and> indianApi q = Inl e'"
    then show "searchAllFoods usdaApi indianApi err q = ([], None)"
      by (simp add: long)
  }
  {
    assume "usdaApi q = Inr us \<and> indianApi q = Inr ins"
    then show "searchAllFoods usdaApi indianApi err q
        = (map (\<lambda>food. convertIndianFoodToSearchResult (Some food)) ins @ us, None)"
      by (simp add: long)
  }
  show "searchEffect usdaApi indianApi err ModeAll q (Some cs)
      = (map convertCustomFoodToSearchResult (filteredCustomFoods cs q)
           @ fst (searchAllFoods usdaApi indianApi err q), True, None)"
    using len by (simp add: searchEffect_def long)
qed

theorem C7_all_mode_isolates_failures_witness:
  "2 \<le> length (trim ''dal'')
   \<and> searchAllFoods (\<lambda>_. Inl (Error ''Failed to fetch'')) (\<lambda>_. Inr [sample_indian 5 ''Dal''])
        None ''dal''
      = ([convertIndianFoodToSearchResult (Some (sample_indian 5 ''Dal''))], None)
   \<and> searchAllFoods (\<lambda>_. Inr [sample_result ''171688'' []]) (\<lambda>_. Inl Thrown) None ''dal''
      = ([sample_result ''171688'' []], None)
   \<and> searchAllFoods (\<lambda>_. Inl Thrown) (\<lambda>_. Inl (Error ''500'')) None ''dal'' = ([], None)
   \<and> searchAllFoods (\<lambda>_. Inr [sample_result ''171688'' []]) (\<lambda>_. Inr [sample_indian 5 ''Dal''])
        None ''dal''
      = ([convertIndianFoodToSearchResult (Some (sample_indian 5 ''Dal'')),
          sample_result ''171688'' []], None)"
  using
    C7_all_mode_isolates_failures [of "\<lambda>_. Inl (Error ''Failed to fetch'')"
      "\<lambda>_. Inr [sample_indian 5 ''Dal'']" "''dal''" "Error ''Failed to fetch''"
      "[sample_indian 5 ''Dal'']" None "[]" "Thrown" "[]"]
    C7_all_mode_isolates_failures [of "\<lambda>_. Inr [sample_result ''171688'' []]"
      "\<lambda>_. Inl Thrown" "''dal''" "Thrown" "[]" None "[sample_result ''171688'' []]"
      "Thrown" "[]"]
    C7_all_mode_isolates_failures [of "\<lambda>_. Inl Thrown" "\<lambda>_. Inl (Error ''500'')" "''dal''"
      "Thrown" "[]" None "[]" "Error ''500''" "[]"]
    C7_all_mode_isolates_failures [of "\<lambda>_. Inr [sample_result ''171688'' []]"
      "\<lambda>_. Inr [sample_indian 5 ''Dal'']" "''dal''" "Thrown" "[sample_indian 5 ''Dal'']" None
      "[sample_result ''171688'' []]" "Thrown" "[]"]
  by (simp add: trim_def isWhiteSpace_def)

section \<open>Properties of the batch creation of Indian foods\<close>

lemma parse_each_fails:
  "x \<in> set foods \<Longrightarrow> parse x = Inl msg \<Longrightarrow> \<exists>m. parse_each parse foods = Inl (Error m)"
proof (induction foods)
  case Nil
  then show ?case by simp
next
  case (Cons a foods)
  show ?case
  proof (cases "parse a")
    case (Inl m)
    then show ?thesis by simp
  next
    case (Inr v)
    with Cons.prems have "x \<in> set foods" by auto
    with Cons.IH Cons.prems(2) obtain m where "parse_each parse foods = Inl (Error m)"
      by blast
    with Inr show ?thesis by simp
  qed
qed

lemma parse_each_valid:
  "\<forall>x\<in>set foods. parse x = Inr (v x) \<Longrightarrow> parse_each parse foods = Inr (map v foods)"
  by (induction foods) auto

text \<open>A batch whose elements all validate is answered 201 and stored as a whole.\<close>

lemma batch_all_valid:
  assumes "\<forall>x\<in>set foods. parse x = Inr (v x)"
  shows "post_indian_foods_batch parse (Some foods) tbl =
     (Json 201 (fst (createManyIndianFoods (map v foods) tbl)),
      snd (createManyIndianFoods (map v foods) tbl))"
  using parse_each_valid [OF assms]
  by (simp add: post_indian_foods_batch_def split: prod.splits)

lemma createManyIndianFoods_rows:
  "rows (snd (createManyIndianFoods foods tbl))
     = rows tbl @ fst (createManyIndianFoods foods tbl)
   \<and> length (fst (createManyIndianFoods foods tbl)) = length foods"
  by (simp add: createManyIndianFoods_def insert_indianFoods_def Let_def)

text \<open>
  Claim C8. For every array sent to the batch creation and every schema, if some element
  fails validation then the response is 400 and the table of Indian foods is exactly what it
  was before the request: no row of the batch is stored.
\<close>

theorem C8_batch_all_or_nothing:
  assumes "x \<in> set foods" and "parse x = Inl msg"
  shows "status (fst (post_indian_foods_batch parse (Some foods) tbl)) = 400
    \<and> snd (post_indian_foods_batch parse (Some foods) tbl) = tbl"
proof -
  from assms parse_each_fails [of x foods parse msg]
  obtain m where "parse_each parse foods = Inl (Error m)" by blast
  then show ?thesis by (simp add: post_indian_foods_batch_def)
qed

theorem C8_batch_all_or_nothing_witness:
  "None \<in> set [Some (sample_insert ''Idli''), None, Some (sample_insert ''Dosa'')]
   \<and> sample_parse None = Inl ''Required''
   \<and> post_indian_foods_batch sample_parse
        (Some [Some (sample_insert ''Idli''), None, Some (sample_insert ''Dosa'')])
        \<lparr> rows = [sample_indian 1 ''Poha''], nextId = 2 \<rparr>
      = (Message 400 ''Required'', \<lparr> rows = [sample_indian 1 ''Poha''], nextId = 2 \<rparr>)"
  using C8_batch_all_or_nothing [of None
      "[Some (sample_insert ''Idli''), None, Some (sample_insert ''Dosa'')]"
      sample_parse "''Required''" "\<lparr> rows = [sample_indian 1 ''Poha''], nextId = 2 \<rparr>"]
  by (simp add: sample_parse_def post_indian_foods_batch_def)

section \<open>Properties of the custom-food reads\<close>

text \<open>The fetch by id answers with the first stored row that has the id, if there is one.\<close>

lemma fetch_by_id_first_row:
  "custom_read_result ilike tbl a (FetchById i)
     = (case find (\<lambda>f. cf_id f = i) (rows tbl) of None \<Rightarrow> [] | Some f \<Rightarrow> [f])"
  by (simp add: get_custom_food_by_id_def getCustomFoodById_def find_filter_conv
      split: list.splits)

lemma find_distinct_key:
  "f \<in> set xs \<Longrightarrow> distinct (map key xs) \<Longrightarrow> find (\<lambda>g. key g = key f) xs = Some f"
proof (induction xs)
  case Nil
  then show ?case by simp
next
  case (Cons x xs)
  show ?case
  proof (cases "key x = key f")
    case True
    with Cons.prems have "x = f" by (auto simp: image_iff)
    with True show ?thesis by simp
  next
    case False
    with Cons.prems have "f \<in> set xs" "distinct (map key xs)" by auto
    with Cons.IH False show ?thesis by simp
  qed
qed

text \<open>
  Claim C9, as stated, at a table where food 7 belongs to user 2 and food 8 to user 1: the
  fetch by id 7, invoked on behalf of user 1, returns the food of user 2.
\<close>

theorem C9_fetch_by_id_counterexample:
  "custom_read_result (\<lambda>s p. True)
       \<lparr> rows = [sample_custom 7 2 ''Shake'', sample_custom 8 1 ''Oats''], nextId = 9 \<rparr>
       1 (FetchById 7)
     = [sample_custom 7 2 ''Shake'']
   \<and> get_custom_food_by_id
       \<lparr> rows = [sample_custom 7 2 ''Shake'', sample_custom 8 1 ''Oats''], nextId = 9 \<rparr> 7
     = Json 200 (sample_custom 7 2 ''Shake'')
   \<and> cf_userId (sample_custom 7 2 ''Shake'') = 2
   \<and> (1::int) \<noteq> 2"
  by (simp add: get_custom_food_by_id_def getCustomFoodById_def sample_custom_def)

text \<open>
  Claim C9, amended. For every two distinct users A and B, the list and the search of
  custom foods invoked on behalf of user A never return a custom food owned by user B. The
  fetch by id depends on the id alone: it returns the same for every user who asks; when
  some stored food has the id, it answers 200 with a stored food of that id, whoever owns
  it (with distinct ids, exactly that food); when none has, it answers 404.
\<close>

theorem C9_list_and_search_scoped:
  "(a \<noteq> b \<longrightarrow>
      (\<forall>f\<in>set (custom_read_result ilike tbl a ListFoods). cf_userId f \<noteq> b)
    \<and> (\<forall>f\<in>set (custom_read_result ilike tbl a (SearchFoods q)). cf_userId f \<noteq> b))
   \<and> custom_read_result ilike tbl a (FetchById i) = custom_read_result ilike tbl b (FetchById i)
   \<and> (\<forall>f\<in>set (custom_read_result ilike tbl a (FetchById i)). cf_id f = i)
   \<and> ((\<exists>f\<in>set (rows tbl). cf_id f = i)
        \<longrightarrow> (\<exists>g\<in>set (rows tbl). cf_id g = i
               \<and> custom_read_result ilike tbl a (FetchById i) = [g]
               \<and> get_custom_food_by_id tbl i = Json 200 g))
   \<and> ((\<forall>f\<in>set (rows tbl). cf_id f \<noteq> i)
        \<longrightarrow> custom_read_result ilike tbl a (FetchById i) = []
          \<and> status (get_custom_food_by_id tbl i) = 404)
   \<and> (\<forall>f\<in>set (rows tbl). distinct (map cf_id (rows tbl))
        \<longrightarrow> custom_read_result ilike tbl a (FetchById (cf_id f)) = [f])"
proof -
  have l: "\<forall>f\<in>set (getCustomFoods tbl a). cf_userId f = a"
    by (simp add: getCustomFoods_def)
  have s: "\<forall>f\<in>set (searchCustomFoods ilike tbl a q). cf_userId f = a"
    by (auto simp: searchCustomFoods_def dest: in_set_takeD)
  have ls: "a \<noteq> b \<longrightarrow>
      (\<forall>f\<in>set (custom_read_result ilike tbl a ListFoods). cf_userId f \<noteq> b)
    \<and> (\<forall>f\<in>set (custom_read_result ilike tbl a (SearchFoods q)). cf_userId f \<noteq> b)"
    using l s by simp
  have e: "custom_read_result ilike tbl a (FetchById i)
      = custom_read_result ilike tbl b (FetchById i)"
    by simp
  have k: "\<forall>f\<in>set (custom_read_result ilike tbl a (FetchById i)). cf_id f = i"
  proof (cases "filter (\<lambda>f. cf_id f = i) (rows tbl)")
    case Nil
    then show ?thesis
      by (simp add: get_custom_food_by_id_def getCustomFoodById_def)
  next
    case (Cons g gs)
    then have "g \<in> set (filter (\<lambda>f. cf_id f = i) (rows tbl))" by simp
    then have "cf_id g = i" by simp
    with Cons show ?thesis
      by (simp add: get_custom_food_by_id_def getCustomFoodById_def)
  qed
  have ex: "(\<exists>f\<in>set (rows tbl). cf_id f = i)
        \<longrightarrow> (\<exists>g\<in>set (rows tbl). cf_id g = i
               \<and> custom_read_result ilike tbl a (FetchById i) = [g]
               \<and> get_custom_food_by_id tbl i = Json 200 g)"
  proof
    assume "\<exists>f\<in>set (rows tbl). cf_id f = i"
    then have "filter (\<lambda>f. cf_id f = i) (rows tbl) \<noteq> []"
      by (simp add: filter_empty_conv)
    then obtain g gs where c: "filter (\<lambda>f. cf_id f = i) (rows tbl) = g # gs"
      by (cases "filter (\<lambda>f. cf_id f = i) (rows tbl)") auto
    then have "g \<in> set (filter (\<lambda>f. cf_id f = i) (rows tbl))" by simp
    then have m: "g \<in> set (rows tbl)" "cf_id g = i" by simp_all
    from c have "get_custom_food_by_id tbl i = Json 200 g"
      by (simp add: get_custom_food_by_id_def getCustomFoodById_def)
    with m show "\<exists>g\<in>set (rows tbl). cf_id g = i
               \<and> custom_read_result ilike tbl a (FetchById i) = [g]
               \<and> get_custom_food_by_id tbl i = Json 200 g"
      by auto
  qed
  have none: "(\<forall>f\<in>set (rows tbl). cf_id f \<noteq> i)
        \<longrightarrow> custom_read_result ilike tbl a (FetchById i) = []
          \<and> status (get_custom_food_by_id tbl i) = 404"
  proof
    assume "\<forall>f\<in>set (rows tbl). cf_id f \<noteq> i"
    then have "filter (\<lambda>f. cf_id f = i) (rows tbl) = []"
      by (simp add: filter_empty_conv)
    then show "custom_read_result ilike tbl a (FetchById i) = []
          \<and> status (get_custom_food_by_id tbl i) = 404"
      by (simp add: get_custom_food_by_id_def getCustomFoodById_def)
  qed
  have d: "\<forall>f\<in>set (rows tbl). distinct (map cf_id (rows tbl))
        \<longrightarrow> custom_read_result ilike tbl a (FetchById (cf_id f)) = [f]"
  proof (intro ballI impI)
    fix f
    assume "f \<in> set (rows tbl)" and "distinct (map cf_id (rows tbl))"
    then have "find (\<lambda>g. cf_id g = cf_id f) (rows tbl) = Some f"
      by (rule find_distinct_key)
    then show "custom_read_result ilike tbl a (FetchById (cf_id f)) = [f]"
      by (simp only: fetch_by_id_first_row option.case)
  qed
  show ?thesis
    by (rule conjI [OF ls conjI [OF e conjI [OF k conjI [OF ex conjI [OF none d]]]]])
qed

theorem C9_list_and_search_scoped_witness:
  "(1::int) \<noteq> 2
   \<and> custom_read_result (\<lambda>s p. True)
       \<lparr> rows = [sample_custom 7 2 ''Shake'', sample_custom 8 1 ''Oats''], nextId = 9 \<rparr>
       1 ListFoods = [sample_custom 8 1 ''Oats'']
   \<and> custom_read_result (\<lambda>s p. True)
       \<lparr> rows = [sample_custom 7 2 ''Shake'', sample_custom 8 1 ''Oats''], nextId = 9 \<rparr>
       1 (SearchFoods ''a'') = [sample_custom 8 1 ''Oats'']
   \<and> cf_userId (sample_custom 8 1 ''Oats'') \<noteq> 2
   \<and> sample_custom 7 2 ''Shake''
        \<in> set (rows \<lparr> rows = [sample_custom 7 2 ''Shake'', sample_custom 8 1 ''Oats''],
                      nextId = 9 \<rparr>)
   \<and> distinct (map cf_id (rows \<lparr> rows = [sample_custom 7 2 ''Shake'',
         sample_custom 8 1 ''Oats''], nextId = 9 \<rparr>))
   \<and> cf_userId (sample_custom 7 2 ''Shake'') = 2
   \<and> custom_read_result (\<lambda>s p. True)
       \<lparr> rows = [sample_custom 7 2 ''Shake'', sample_custom 8 1 ''Oats''], nextId = 9 \<rparr>
       1 (FetchById (cf_id (sample_custom 7 2 ''Shake''))) = [sample_custom 7 2 ''Shake'']"
proof -
  let ?t = "\<lparr> rows = [sample_custom 7 2 ''Shake'', sample_custom 8 1 ''Oats''],
              nextId = 9 \<rparr>"
  note inst = C9_list_and_search_scoped [of 1 2 "\<lambda>s p. True" ?t "''a''" 7]
  have ne: "(1::int) \<noteq> 2" by simp
  have lst: "custom_read_result (\<lambda>s p. True) ?t 1 ListFoods = [sample_custom 8 1 ''Oats'']"
    by (simp add: getCustomFoods_def sample_custom_def)
  have srch: "custom_read_result (\<lambda>s p. True) ?t 1 (SearchFoods ''a'')
      = [sample_custom 8 1 ''Oats'']"
    by (simp add: searchCustomFoods_def sample_custom_def)
  have own8: "cf_userId (sample_custom 8 1 ''Oats'') \<noteq> 2"
    by (simp add: sample_custom_def)
  have mem: "sample_custom 7 2 ''Shake'' \<in> set (rows ?t)" by simp
  have dis: "distinct (map cf_id (rows ?t))" by (simp add: sample_custom_def)
  have own7: "cf_userId (sample_custom 7 2 ''Shake'') = 2" by (simp add: sample_custom_def)
  from inst have "\<forall>f\<in>set (rows ?t). distinct (map cf_id (rows ?t))
        \<longrightarrow> custom_read_result (\<lambda>s p. True) ?t 1 (FetchById (cf_id f)) = [f]"
    by (elim conjE)
  with mem dis have fetch:
    "custom_read_result (\<lambda>s p. True) ?t 1 (FetchById (cf_id (sample_custom 7 2 ''Shake'')))
       = [sample_custom 7 2 ''Shake'']"
    by blast
  show ?thesis
    by (rule conjI [OF ne conjI [OF lst conjI [OF srch conjI [OF own8 conjI [OF mem
          conjI [OF dis conjI [OF own7 fetch]]]]]]])
qed

section \<open>Properties of the water-intake upsert\<close>

text \<open>
  Run to its end with nothing in between, the task is the call itself; two calls one after
  the other are the schedule that finishes the first before it starts the second.
\<close>

lemma run_two_sequential:
  "run_two [False, False, True, True] (Start d1, Start d2, tbl) =
     (Returned (fst (createOrUpdateWaterIntake d1 tbl)),
      Returned (fst (createOrUpdateWaterIntake d2 (snd (createOrUpdateWaterIntake d1 tbl)))),
      snd (createOrUpdateWaterIntake d2 (snd (createOrUpdateWaterIntake d1 tbl))))"
  by (simp add: createOrUpdateWaterIntake_def split: option.splits prod.splits)

lemma records_for_update:
  "length (records_for (snd (update_waterIntake i a g tbl)) u d) = length (records_for tbl u d)"
proof -
  have "filter (\<lambda>r. wi_userId r = u \<and> wi_date r = d)
          (map (\<lambda>r. if wi_id r = i then r\<lparr> wi_amount := a, wi_goal := g \<rparr> else r) xs)
        = map (\<lambda>r. if wi_id r = i then r\<lparr> wi_amount := a, wi_goal := g \<rparr> else r)
            (filter (\<lambda>r. wi_userId r = u \<and> wi_date r = d) xs)" for xs :: "WaterIntake list"
    by (induction xs) auto
  then show ?thesis
    by (simp add: records_for_def update_waterIntake_def Let_def)
qed

text \<open>
  A call that runs alone leaves exactly one record for its pair, provided the table held
  at most one before.
\<close>

lemma createOrUpdate_one_record:
  assumes "length (records_for tbl (iw_userId data) (iw_date data)) \<le> 1"
  shows "length (records_for (snd (createOrUpdateWaterIntake data tbl))
           (iw_userId data) (iw_date data)) = 1"
proof (cases "getWaterIntake tbl (iw_userId data) (iw_date data)")
  case None
  then have "records_for tbl (iw_userId data) (iw_date data) = []"
    by (simp add: getWaterIntake_def records_for_def split: list.splits)
  with None show ?thesis
    by (simp add: createOrUpdateWaterIntake_def insert_waterIntake_def records_for_def Let_def)
next
  case (Some existing)
  then have "records_for tbl (iw_userId data) (iw_date data) \<noteq> []"
    by (auto simp: getWaterIntake_def records_for_def split: list.splits)
  with assms have "length (records_for tbl (iw_userId data) (iw_date data)) = 1"
    by (cases "records_for tbl (iw_userId data) (iw_date data)") auto
  with Some show ?thesis
    by (simp add: createOrUpdateWaterIntake_def records_for_update)
qed

text \<open>
  Claim C2, at two upserts for user 1 and date 2024-01-01 on an empty table, scheduled
  read, read, write, write: both reads find no record, both tasks insert, both return, and
  the table holds two records for the pair.
\<close>

theorem C2_interleaved_upserts_duplicate:
  "run_two [False, True, False, True]
       (Start (sample_upsert 1 ''2024-01-01'' 250 2000),
        Start (sample_upsert 1 ''2024-01-01'' 500 2000),
        \<lparr> rows = [], nextId = 1 \<rparr>)
     = (Returned (Some (sample_water 1 1 ''2024-01-01'' 250 2000)),
        Returned (Some (sample_water 2 1 ''2024-01-01'' 500 2000)),
        \<lparr> rows = [sample_water 1 1 ''2024-01-01'' 250 2000,
                   sample_water 2 1 ''2024-01-01'' 500 2000], nextId = 3 \<rparr>)
   \<and> length (records_for
        (snd (snd (run_two [False, True, False, True]
           (Start (sample_upsert 1 ''2024-01-01'' 250 2000),
            Start (sample_upsert 1 ''2024-01-01'' 500 2000),
            \<lparr> rows = [], nextId = 1 \<rparr>)))) 1 ''2024-01-01'') = 2"
  by (simp add: getWaterIntake_def insert_waterIntake_def sample_upsert_def sample_water_def
      records_for_def Let_def)

text \<open>
  Claim C10, at a record with amount 500 and goal 2000: a PATCH whose body supplies amount
  0 leaves the amount at 500, while a PATCH that supplies amount 750 stores 750; user, date
  and goal stay as they were.
\<close>

theorem C10_patch_zero_amount_ignored:
  "patch_water_intake 1 \<lparr> pb_amount = Some 0, pb_goal = None \<rparr>
       \<lparr> rows = [sample_water 1 1 ''2024-01-01'' 500 2000], nextId = 2 \<rparr>
     = (Json 200 (Some (sample_water 1 1 ''2024-01-01'' 500 2000)),
        \<lparr> rows = [sample_water 1 1 ''2024-01-01'' 500 2000], nextId = 2 \<rparr>)
   \<and> patch_water_intake 1 \<lparr> pb_amount = Some 750, pb_goal = None \<rparr>
       \<lparr> rows = [sample_water 1 1 ''2024-01-01'' 500 2000], nextId = 2 \<rparr>
     = (Json 200 (Some (sample_water 1 1 ''2024-01-01'' 750 2000)),
        \<lparr> rows = [sample_water 1 1 ''2024-01-01'' 750 2000], nextId = 2 \<rparr>)"
  by (simp add: patch_water_intake_def createOrUpdateWaterIntake_def getWaterIntake_def
      update_waterIntake_def or_number_def sample_water_def)

end
